theory Spec2Isabelle
  imports Complex_Main
begin

section \<open>The meme-coin trading bot of \<^verbatim>\<open>src/index.js\<close>\<close>

text \<open>
  The decision and position-tracking engine of the bot: the ranking of tweets
  (\<^verbatim>\<open>analyzeTweets\<close>), the market-data lookup (\<^verbatim>\<open>getCoinData\<close>), the two trading
  operations (\<^verbatim>\<open>buyCoin\<close>, \<^verbatim>\<open>sellCoin\<close>) and the periodic cycle
  (\<^verbatim>\<open>runDailyOperations\<close>), over the two module-level variables \<^verbatim>\<open>trackedCoins\<close>
  and \<^verbatim>\<open>dailyOperations\<close>.

  What the outside world answers is an input of the model: the tweets the search
  returns, the sentiment the \<^verbatim>\<open>natural\<close> analyser gives a text, and the body of
  each HTTP response of the market-data service. Log lines and Telegram messages
  do not touch the two variables and are left out. \<open>runDailyOperations\<close> below
  is one invocation that no other invocation interleaves with at its
  \<^verbatim>\<open>await\<close>s.

  A JavaScript number is modelled as a real number. Every comparison of the
  source is exact on finite doubles, and so are the three products it computes
  (\<^verbatim>\<open>5000 * 1.5\<close>, \<^verbatim>\<open>5000 * 0.5\<close> and the doubling \<^verbatim>\<open>buyPrice * 2\<close>); \<^verbatim>\<open>NaN\<close> and
  the infinities are outside the model.
\<close>

subsection \<open>Strings\<close>

type_synonym number = real

text \<open>The character class \<^verbatim>\<open>[A-Z]\<close>.\<close>

definition isUpperAZ :: "char \<Rightarrow> bool" where
  "isUpperAZ c \<longleftrightarrow> c \<in> set ''ABCDEFGHIJKLMNOPQRSTUVWXYZ''"

text \<open>\<^verbatim>\<open>String.prototype.toLowerCase\<close>, on ASCII text.\<close>

definition toLowerChar :: "char \<Rightarrow> char" where
  "toLowerChar c =
     (case map_of (zip ''ABCDEFGHIJKLMNOPQRSTUVWXYZ'' ''abcdefghijklmnopqrstuvwxyz'') c of
        None \<Rightarrow> c
      | Some l \<Rightarrow> l)"

definition toLowerCase :: "string \<Rightarrow> string" where
  "toLowerCase s = map toLowerChar s"

fun startsWith :: "string \<Rightarrow> string \<Rightarrow> bool" where
  "startsWith s [] = True"
| "startsWith [] (p # ps) = False"
| "startsWith (c # cs) (p # ps) = (c = p \<and> startsWith cs ps)"

text \<open>\<^verbatim>\<open>String.prototype.includes\<close>: the pattern occurs somewhere in the string.\<close>

fun includesStr :: "string \<Rightarrow> string \<Rightarrow> bool" where
  "includesStr [] p = startsWith [] p"
| "includesStr (c # cs) p = (startsWith (c # cs) p \<or> includesStr cs p)"

text \<open>
  \<^verbatim>\<open>text.match(/\$[A-Z]+/)\<close>: the leftmost \<^verbatim>\<open>$\<close> that is followed by an upper-case
  letter, with the longest run of upper-case letters after it; \<open>None\<close> is the
  \<^verbatim>\<open>null\<close> of no match, \<open>Some m\<close> carries \<^verbatim>\<open>coinMatch[0]\<close>.
\<close>

fun coinMatch :: "string \<Rightarrow> string option" where
  "coinMatch [] = None"
| "coinMatch (c # cs) =
     (if c = CHR ''$'' \<and> takeWhile isUpperAZ cs \<noteq> []
      then Some (c # takeWhile isUpperAZ cs)
      else coinMatch cs)"

text \<open>\<^verbatim>\<open>s.replace('$', '')\<close>: the first \<^verbatim>\<open>$\<close> of the string is dropped.\<close>

fun replaceDollar :: "string \<Rightarrow> string" where
  "replaceDollar [] = []"
| "replaceDollar (c # cs) = (if c = CHR ''$'' then cs else c # replaceDollar cs)"

subsection \<open>Ranking the tweets\<close>

record candidate =
  coin :: string
  sentiment :: number
  tweet :: string

text \<open>
  The condition of the \<^verbatim>\<open>continue\<close> in the loop of \<^verbatim>\<open>analyzeTweets\<close>. The
  parameter \<open>getSentiment\<close> stands for
  \<^verbatim>\<open>sentimentAnalyzer.getSentiment(tokenizer.tokenize(text))\<close>.
\<close>

definition suspicious :: "(string \<Rightarrow> number) \<Rightarrow> string \<Rightarrow> bool" where
  "suspicious getSentiment text \<longleftrightarrow>
     getSentiment text < 0 \<or> includesStr (toLowerCase text) ''scam''
       \<or> includesStr (toLowerCase text) ''rug''"

text \<open>The array \<^verbatim>\<open>potentialCoins\<close> when the loop over the tweets has ended.\<close>

fun potentialCoins :: "(string \<Rightarrow> number) \<Rightarrow> string list \<Rightarrow> candidate list" where
  "potentialCoins getSentiment [] = []"
| "potentialCoins getSentiment (text # tweets) =
     (if suspicious getSentiment text then potentialCoins getSentiment tweets
      else case coinMatch text of
             None \<Rightarrow> potentialCoins getSentiment tweets
           | Some m \<Rightarrow>
               \<lparr>coin = m, sentiment = getSentiment text, tweet = text\<rparr>
                 # potentialCoins getSentiment tweets)"

text \<open>
  \<^verbatim>\<open>Array.prototype.sort\<close> with a comparison function. The language standard
  requires a stable sort, which fixes the result for a consistent comparison
  function; the engine's algorithm is not part of the program, so the model is
  the stable insertion sort: an element goes in front of the first element it
  does not compare greater than.
\<close>

fun insertBy :: "('a \<Rightarrow> 'a \<Rightarrow> number) \<Rightarrow> 'a \<Rightarrow> 'a list \<Rightarrow> 'a list" where
  "insertBy cmp x [] = [x]"
| "insertBy cmp x (y # ys) =
     (if cmp x y \<le> 0 then x # y # ys else y # insertBy cmp x ys)"

fun sortBy :: "('a \<Rightarrow> 'a \<Rightarrow> number) \<Rightarrow> 'a list \<Rightarrow> 'a list" where
  "sortBy cmp [] = []"
| "sortBy cmp (x # xs) = insertBy cmp x (sortBy cmp xs)"

text \<open>
  \<^verbatim>\<open>analyzeTweets\<close>. The feed is \<open>None\<close> when the search or the iteration over
  its pages throws: the \<^verbatim>\<open>catch\<close> then returns the empty array.
\<close>

definition analyzeTweets :: "(string \<Rightarrow> number) \<Rightarrow> string list option \<Rightarrow> candidate list" where
  "analyzeTweets getSentiment feed =
     (case feed of
        None \<Rightarrow> []
      | Some tweets \<Rightarrow>
          sortBy (\<lambda>a b. sentiment b - sentiment a) (potentialCoins getSentiment tweets))"

subsection \<open>Market data\<close>

text \<open>
  The first element of \<^verbatim>\<open>response.data.pairs\<close>; a field is \<open>None\<close> when the
  service leaves it out.
\<close>

record pair =
  priceUsd :: "number option"
  marketCapUsd :: "number option"

text \<open>
  What one \<^verbatim>\<open>axios.get\<close> gives: the request fails, or it answers with a body
  whose \<^verbatim>\<open>pairs\<close> is absent (\<open>None\<close>) or a list.
\<close>

datatype response = RequestError | Response "pair list option"

record coinData =
  price :: number
  marketCap :: number

text \<open>\<^verbatim>\<open>x || 0\<close> for a field that is a number or absent.\<close>

definition orZero :: "number option \<Rightarrow> number" where
  "orZero x = (case x of None \<Rightarrow> 0 | Some v \<Rightarrow> v)"

text \<open>
  \<^verbatim>\<open>getCoinData\<close>, as a function of the response to its request (the coin only
  selects the URL); \<open>None\<close> is \<^verbatim>\<open>null\<close>.
\<close>

fun getCoinData :: "response \<Rightarrow> coinData option" where
  "getCoinData RequestError = None"
| "getCoinData (Response None) = None"
| "getCoinData (Response (Some [])) = None"
| "getCoinData (Response (Some (d # ds))) =
     Some \<lparr>price = orZero (priceUsd d), marketCap = orZero (marketCapUsd d)\<rparr>"

subsection \<open>The tracked positions and the operation count\<close>

record position =
  buyPrice :: number
  targetMultiplier :: number
  amount :: number

text \<open>
  A JavaScript \<^verbatim>\<open>Map\<close> keeps its entries in insertion order: \<^verbatim>\<open>set\<close> on a key
  that is present replaces the value in its place, on a new key appends.
\<close>

fun mapSet :: "'k \<Rightarrow> 'v \<Rightarrow> ('k \<times> 'v) list \<Rightarrow> ('k \<times> 'v) list" where
  "mapSet k v [] = [(k, v)]"
| "mapSet k v ((k', v') # m) =
     (if k' = k then (k, v) # m else (k', v') # mapSet k v m)"

fun mapGet :: "'k \<Rightarrow> ('k \<times> 'v) list \<Rightarrow> 'v option" where
  "mapGet k [] = None"
| "mapGet k ((k', v') # m) = (if k' = k then Some v' else mapGet k m)"

fun mapDelete :: "'k \<Rightarrow> ('k \<times> 'v) list \<Rightarrow> ('k \<times> 'v) list" where
  "mapDelete k [] = []"
| "mapDelete k ((k', v') # m) =
     (if k' = k then mapDelete k m else (k', v') # mapDelete k m)"

definition mapKeys :: "('k \<times> 'v) list \<Rightarrow> 'k list" where
  "mapKeys m = map fst m"

record bot =
  trackedCoins :: "(string \<times> position) list"
  dailyOperations :: nat

definition initial :: bot where
  "initial = \<lparr>trackedCoins = [], dailyOperations = 0\<rparr>"

definition MAX_DAILY_OPERATIONS :: nat where
  "MAX_DAILY_OPERATIONS = 5"

definition TARGET_MULTIPLIER_MIN :: number where
  "TARGET_MULTIPLIER_MIN = 2"

definition TARGET_MULTIPLIER_MAX :: number where
  "TARGET_MULTIPLIER_MAX = 5"

definition MARKET_CAP_THRESHOLD :: number where
  "MARKET_CAP_THRESHOLD = 5000"

text \<open>
  The literal \<^verbatim>\<open>0.01\<close> of the two price checks denotes the double nearest to
  one hundredth, which is \<open>5764607523034235 / 2 ^ 59\<close>.
\<close>

definition priceCeiling :: number where
  "priceCeiling = 5764607523034235 / 2 ^ 59"

subsection \<open>Buying and selling\<close>

text \<open>
  \<^verbatim>\<open>buyCoin\<close>, given the response to the request its \<^verbatim>\<open>getCoinData\<close> makes.
  Nothing in its \<^verbatim>\<open>try\<close> block throws (\<^verbatim>\<open>getCoinData\<close> catches its own
  failures), so the \<^verbatim>\<open>catch\<close> is no branch here.
\<close>

definition buyCoin :: "response \<Rightarrow> string \<Rightarrow> number \<Rightarrow> bot \<Rightarrow> bool \<times> bot" where
  "buyCoin r c amountInSol st =
     (case getCoinData r of
        None \<Rightarrow> (False, st)
      | Some d \<Rightarrow>
          if marketCap d > MARKET_CAP_THRESHOLD * 1.5
               \<or> marketCap d < MARKET_CAP_THRESHOLD * 0.5
          then (False, st)
          else if price d > priceCeiling then (False, st)
          else (True,
                st\<lparr>trackedCoins :=
                     mapSet c \<lparr>buyPrice = price d,
                               targetMultiplier = TARGET_MULTIPLIER_MIN,
                               amount = amountInSol\<rparr> (trackedCoins st),
                   dailyOperations := dailyOperations st + 1\<rparr>))"

datatype error = TypeError

text \<open>
  The \<^verbatim>\<open>try\<close> block of \<^verbatim>\<open>sellCoin\<close>: destructuring the \<^verbatim>\<open>undefined\<close> that
  \<^verbatim>\<open>trackedCoins.get\<close> returns for an unknown coin throws a \<^verbatim>\<open>TypeError\<close>.
\<close>

definition sellCoin_try :: "response \<Rightarrow> string \<Rightarrow> bot \<Rightarrow> error + (bool \<times> bot)" where
  "sellCoin_try r c st =
     (case getCoinData r of
        None \<Rightarrow> Inr (False, st)
      | Some d \<Rightarrow>
          (case mapGet c (trackedCoins st) of
             None \<Rightarrow> Inl TypeError
           | Some p \<Rightarrow>
               if price d \<ge> buyPrice p * targetMultiplier p
               then Inr (True,
                         st\<lparr>trackedCoins := mapDelete c (trackedCoins st),
                            dailyOperations := dailyOperations st + 1\<rparr>)
               else Inr (False, st)))"

text \<open>
  \<^verbatim>\<open>sellCoin\<close>: the \<^verbatim>\<open>catch\<close> returns \<^verbatim>\<open>false\<close>; the block has changed nothing
  when it throws.
\<close>

definition sellCoin :: "response \<Rightarrow> string \<Rightarrow> bot \<Rightarrow> bool \<times> bot" where
  "sellCoin r c st =
     (case sellCoin_try r c st of
        Inl e \<Rightarrow> (False, st)
      | Inr res \<Rightarrow> res)"

subsection \<open>The cycle\<close>

text \<open>What the outside world answers during one cycle.\<close>

record cycle_io =
  feed :: "string list option"
  topResponse :: response
  buyResponse :: response
  sellResponse :: "string \<Rightarrow> response"

text \<open>
  The loop \<^verbatim>\<open>for (const [coin] of trackedCoins)\<close>, over the keys the map holds
  when the loop starts. The body deletes at most the entry it is visiting and
  adds none, so the live iterator visits exactly these keys, in this order.
\<close>

fun sweep :: "(string \<Rightarrow> response) \<Rightarrow> string list \<Rightarrow> bot \<Rightarrow> bot" where
  "sweep rs [] st = st"
| "sweep rs (c # cs) st = sweep rs cs (snd (sellCoin (rs c) c st))"

text \<open>The condition of the \<^verbatim>\<open>if\<close> that guards the purchase in \<^verbatim>\<open>runDailyOperations\<close>.\<close>

definition admits :: "coinData \<Rightarrow> bool" where
  "admits d \<longleftrightarrow>
     price d > 0 \<and> price d < priceCeiling
       \<and> marketCap d \<ge> MARKET_CAP_THRESHOLD * 0.5
       \<and> marketCap d \<le> MARKET_CAP_THRESHOLD * 1.5"

definition runDailyOperations :: "(string \<Rightarrow> number) \<Rightarrow> cycle_io \<Rightarrow> bot \<Rightarrow> bot" where
  "runDailyOperations getSentiment io st =
     (if dailyOperations st \<ge> MAX_DAILY_OPERATIONS * 2 then st
      else case analyzeTweets getSentiment (feed io) of
             [] \<Rightarrow> st
           | topCoin # rest \<Rightarrow>
               (case getCoinData (topResponse io) of
                  None \<Rightarrow> st
                | Some d \<Rightarrow>
                    let st1 =
                          (if admits d
                           then snd (buyCoin (buyResponse io)
                                       (replaceDollar (coin topCoin)) 0.1 st)
                           else st)
                    in sweep (sellResponse io) (mapKeys (trackedCoins st1)) st1))"

fun runCycles :: "(string \<Rightarrow> number) \<Rightarrow> cycle_io list \<Rightarrow> bot \<Rightarrow> bot" where
  "runCycles getSentiment [] st = st"
| "runCycles getSentiment (io # ios) st =
     runCycles getSentiment ios (runDailyOperations getSentiment io st)"

text \<open>
  The states the two variables can take. They change only inside \<^verbatim>\<open>buyCoin\<close> and
  \<^verbatim>\<open>sellCoin\<close>, and each of the two makes its change in one uninterrupted step
  after its \<^verbatim>\<open>await\<close>; so every run of the program goes through states of this
  set only, also when invocations of \<^verbatim>\<open>runDailyOperations\<close> overlap. The
  arguments and the response of a step are arbitrary, so the set may hold more
  states than the program reaches.
\<close>

inductive reachable :: "bot \<Rightarrow> bool" where
  reachable_initial: "reachable initial"
| reachable_buyCoin: "reachable st \<Longrightarrow> reachable (snd (buyCoin r c a st))"
| reachable_sellCoin: "reachable st \<Longrightarrow> reachable (snd (sellCoin r c st))"

text \<open>
  What the checks of \<^verbatim>\<open>buyCoin\<close> give a position when it is entered: the
  minimum multiplier, and a price that is not above the ceiling.
\<close>

definition entered :: "position \<Rightarrow> bool" where
  "entered p \<longleftrightarrow> targetMultiplier p = TARGET_MULTIPLIER_MIN \<and> buyPrice p \<le> priceCeiling"

subsection \<open>Example inputs\<close>

text \<open>A response whose first pair carries both fields.\<close>

definition answer :: "number \<Rightarrow> number \<Rightarrow> response" where
  "answer p m = Response (Some [\<lparr>priceUsd = Some p, marketCapUsd = Some m\<rparr>])"

text \<open>A response whose first pair has no \<^verbatim>\<open>priceUsd\<close>.\<close>

definition unpriced :: response where
  "unpriced = Response (Some [\<lparr>priceUsd = None, marketCapUsd = Some 5000\<rparr>])"

text \<open>A scorer that finds every text mildly positive.\<close>

definition bullish :: "string \<Rightarrow> number" where
  "bullish text = 1"

text \<open>
  A cycle whose only tweet is \<open>text\<close>, with quotes that admit the purchase and
  stay below every target.
\<close>

definition holdCycle :: "string \<Rightarrow> cycle_io" where
  "holdCycle text =
     \<lparr>feed = Some [text], topResponse = answer (1 / 256) 5000,
      buyResponse = answer (1 / 256) 5000, sellResponse = (\<lambda>c. answer (1 / 256) 5000)\<rparr>"

text \<open>A cycle in which the price quoted to the sweep is four times the purchase price.\<close>

definition flipCycle :: cycle_io where
  "flipCycle =
     \<lparr>feed = Some [''buy $FOO now''], topResponse = answer (1 / 256) 5000,
      buyResponse = answer (1 / 256) 5000, sellResponse = (\<lambda>c. answer (1 / 64) 5000)\<rparr>"

text \<open>A cycle that buys \<^verbatim>\<open>F\<close> and is quoted four times the purchase price for every other coin.\<close>

definition lastCycle :: cycle_io where
  "lastCycle =
     \<lparr>feed = Some [''$F''], topResponse = answer (1 / 256) 5000,
      buyResponse = answer (1 / 256) 5000,
      sellResponse = (\<lambda>c. if c = ''F'' then answer (1 / 256) 5000 else answer (1 / 64) 5000)\<rparr>"

definition sixCycles :: "cycle_io list" where
  "sixCycles =
     [holdCycle ''$A'', holdCycle ''$B'', holdCycle ''$C'', holdCycle ''$D'', holdCycle ''$E'',
      lastCycle]"

text \<open>
  A cycle whose first quote admits the coin, while the response to the request of
  \<^verbatim>\<open>buyCoin\<close> has no price.
\<close>

definition zeroCycle :: cycle_io where
  "zeroCycle =
     \<lparr>feed = Some [''buy $FOO now''], topResponse = answer (1 / 256) 5000,
      buyResponse = unpriced, sellResponse = (\<lambda>c. RequestError)\<rparr>"

text \<open>The state with one position, bought at \<open>1 / 256\<close>.\<close>

definition held :: bot where
  "held = \<lparr>trackedCoins = [(''FOO'', \<lparr>buyPrice = 1 / 256, targetMultiplier = 2, amount = 0.1\<rparr>)],
           dailyOperations = 1\<rparr>"

text \<open>A scorer and a feed for the ranking.\<close>

definition scored :: "string \<Rightarrow> number" where
  "scored text =
     (if text = ''bad $EEE'' then - 1
      else if text = ''$BBB is a SCAM'' then 5
      else if text = ''$CCC moon'' then 3
      else 1)"

definition timeline :: "string list" where
  "timeline =
     [''$AAA up'', ''$BBB is a SCAM'', ''$CCC moon'', ''$DDD ok'', ''bad $EEE'', ''no coin'']"

section \<open>Properties\<close>

text \<open>The equations that evaluate the model on a concrete input.\<close>

lemmas evaluation =
  runDailyOperations_def analyzeTweets_def suspicious_def isUpperAZ_def toLowerCase_def
  toLowerChar_def admits_def orZero_def priceCeiling_def MARKET_CAP_THRESHOLD_def
  MAX_DAILY_OPERATIONS_def TARGET_MULTIPLIER_MIN_def buyCoin_def sellCoin_def sellCoin_try_def
  mapKeys_def initial_def answer_def unpriced_def bullish_def holdCycle_def flipCycle_def
  lastCycle_def sixCycles_def zeroCycle_def held_def

lemmas ranking = analyzeTweets_def suspicious_def isUpperAZ_def toLowerCase_def
  toLowerChar_def scored_def timeline_def

subsection \<open>Strings and ranking\<close>

lemma startsWith_append: "startsWith (p @ s) p"
  by (induction p) simp_all

lemma includesStr_append: "includesStr (a @ p @ b) p"
proof (induction a)
  case Nil
  show ?case by (cases "p @ b") (use startsWith_append [of p b] in auto)
next
  case (Cons c a)
  then show ?case by simp
qed

lemma startsWith_split: "startsWith s p \<Longrightarrow> \<exists>b. s = p @ b"
  by (induction s p rule: startsWith.induct) auto

lemma includesStr_split: "includesStr s p \<Longrightarrow> \<exists>a b. s = a @ p @ b"
proof (induction s)
  case Nil
  then show ?case by (auto dest: startsWith_split)
next
  case (Cons c s)
  from Cons.prems have "startsWith (c # s) p \<or> includesStr s p" by simp
  then show ?case
  proof
    assume "startsWith (c # s) p"
    then obtain b where "c # s = p @ b" by (auto dest: startsWith_split)
    then have "c # s = [] @ p @ b" by simp
    then show ?thesis by blast
  next
    assume "includesStr s p"
    with Cons.IH obtain a b where "s = a @ p @ b" by blast
    then have "c # s = (c # a) @ p @ b" by simp
    then show ?thesis by blast
  qed
qed

lemma includesStr_iff: "includesStr s p \<longleftrightarrow> (\<exists>a b. s = a @ p @ b)"
  using includesStr_split includesStr_append by blast

lemma toLowerCase_append: "toLowerCase (a @ b) = toLowerCase a @ toLowerCase b"
  by (simp add: toLowerCase_def)

lemma includesStr_caseless:
  "includesStr (toLowerCase (pre @ w @ suf)) (toLowerCase w)"
  by (simp add: toLowerCase_append includesStr_append)

lemma suspicious_denied:
  assumes "toLowerCase w = ''scam'' \<or> toLowerCase w = ''rug''"
  shows "suspicious getSentiment (pre @ w @ suf)"
  using assms includesStr_caseless [of pre w suf] by (auto simp: suspicious_def)

lemma potentialCoins_accepted:
  "c \<in> set (potentialCoins getSentiment tweets) \<Longrightarrow>
     tweet c \<in> set tweets \<and> \<not> suspicious getSentiment (tweet c)
       \<and> sentiment c = getSentiment (tweet c) \<and> coinMatch (tweet c) = Some (coin c)"
  by (induction tweets) (auto split: if_splits option.splits)

lemma potentialCoins_order:
  "map tweet (potentialCoins getSentiment tweets) =
     filter (\<lambda>t. \<not> suspicious getSentiment t \<and> coinMatch t \<noteq> None) tweets"
  by (induction tweets) (auto split: option.splits)

lemma set_insertBy: "set (insertBy cmp x xs) = insert x (set xs)"
  by (induction xs) auto

lemma set_sortBy: "set (sortBy cmp xs) = set xs"
  by (induction xs) (simp_all add: set_insertBy)

lemma length_sortBy: "length (sortBy cmp xs) = length xs"
proof -
  have "length (insertBy cmp x ys) = Suc (length ys)" for x and ys :: "'a list"
    by (induction ys) simp_all
  then show ?thesis by (induction xs) simp_all
qed

lemma sorted_insertBy:
  "sorted_wrt (\<lambda>a b. sentiment b \<le> sentiment a) xs \<Longrightarrow>
     sorted_wrt (\<lambda>a b. sentiment b \<le> sentiment a)
       (insertBy (\<lambda>a b. sentiment b - sentiment a) x xs)"
  by (induction xs) (auto simp: set_insertBy)

lemma sorted_sortBy:
  "sorted_wrt (\<lambda>a b. sentiment b \<le> sentiment a)
     (sortBy (\<lambda>a b. sentiment b - sentiment a) xs)"
  by (induction xs) (simp_all add: sorted_insertBy)

lemma filter_insertBy:
  "filter (\<lambda>c. sentiment c = s) (insertBy (\<lambda>a b. sentiment b - sentiment a) x xs) =
     (if sentiment x = s then x # filter (\<lambda>c. sentiment c = s) xs
      else filter (\<lambda>c. sentiment c = s) xs)"
  by (induction xs) auto

lemma filter_sortBy:
  "filter (\<lambda>c. sentiment c = s) (sortBy (\<lambda>a b. sentiment b - sentiment a) xs) =
     filter (\<lambda>c. sentiment c = s) xs"
  by (induction xs) (simp_all add: filter_insertBy)

lemma potentialCoins_rejected:
  "\<forall>t \<in> set tweets. suspicious getSentiment t \<or> coinMatch t = None \<Longrightarrow>
     potentialCoins getSentiment tweets = []"
  by (induction tweets) auto

lemma map_tweet_filter_score:
  "map tweet (filter (\<lambda>c. sentiment c = s) (potentialCoins getSentiment tweets)) =
     filter (\<lambda>t. \<not> suspicious getSentiment t \<and> coinMatch t \<noteq> None \<and> getSentiment t = s) tweets"
  by (induction tweets) (auto split: option.splits)
lemma potentialCoins_append:
  "potentialCoins getSentiment (xs @ ys) =
     potentialCoins getSentiment xs @ potentialCoins getSentiment ys"
  by (induction xs) (simp_all split: option.splits)

subsection \<open>The position map\<close>

lemma mapGet_mapSet: "mapGet k' (mapSet k v m) = (if k' = k then Some v else mapGet k' m)"
  by (induction m) auto

lemma mapGet_mapDelete: "mapGet k' (mapDelete k m) = (if k' = k then None else mapGet k' m)"
  by (induction m) auto

lemma mapGet_None_iff: "mapGet k m = None \<longleftrightarrow> k \<notin> set (mapKeys m)"
  by (induction m) (auto simp: mapKeys_def split: if_splits)

lemma mapKeys_mapSet:
  "mapKeys (mapSet k v m) = (if k \<in> set (mapKeys m) then mapKeys m else mapKeys m @ [k])"
  by (induction m) (force simp: mapKeys_def)+

lemma mapKeys_mapDelete: "mapKeys (mapDelete k m) = removeAll k (mapKeys m)"
  by (induction m) (auto simp: mapKeys_def)

lemma distinct_mapSet: "distinct (mapKeys m) \<Longrightarrow> distinct (mapKeys (mapSet k v m))"
  by (simp add: mapKeys_mapSet)

lemma distinct_mapDelete: "distinct (mapKeys m) \<Longrightarrow> distinct (mapKeys (mapDelete k m))"
  by (simp add: mapKeys_mapDelete distinct_removeAll)

text \<open>The two outcomes of a purchase.\<close>

lemma buyCoin_cases:
  obtains (rejected) "buyCoin r c a st = (False, st)"
  | (bought) d where "getCoinData r = Some d"
      "MARKET_CAP_THRESHOLD * 0.5 \<le> marketCap d" "marketCap d \<le> MARKET_CAP_THRESHOLD * 1.5"
      "price d \<le> priceCeiling"
      "buyCoin r c a st =
         (True, st\<lparr>trackedCoins :=
                     mapSet c \<lparr>buyPrice = price d, targetMultiplier = TARGET_MULTIPLIER_MIN,
                               amount = a\<rparr> (trackedCoins st),
                   dailyOperations := dailyOperations st + 1\<rparr>)"
proof (cases "getCoinData r")
  case None
  then show ?thesis using rejected by (simp add: buyCoin_def)
next
  case (Some d)
  show ?thesis
  proof (cases "marketCap d > MARKET_CAP_THRESHOLD * 1.5
                  \<or> marketCap d < MARKET_CAP_THRESHOLD * 0.5 \<or> price d > priceCeiling")
    case True
    with Some show ?thesis using rejected by (auto simp: buyCoin_def)
  next
    case False
    with Some show ?thesis using bought [of d] by (simp add: buyCoin_def not_less)
  qed
qed

lemma sellCoin_cases:
  obtains (held) "sellCoin r c st = (False, st)"
  | (sold) d p where "getCoinData r = Some d" "mapGet c (trackedCoins st) = Some p"
      "buyPrice p * targetMultiplier p \<le> price d"
      "sellCoin r c st =
         (True, st\<lparr>trackedCoins := mapDelete c (trackedCoins st),
                   dailyOperations := dailyOperations st + 1\<rparr>)"
proof (cases "getCoinData r")
  case None
  then show ?thesis using held by (simp add: sellCoin_def sellCoin_try_def)
next
  case d: (Some d)
  show ?thesis
  proof (cases "mapGet c (trackedCoins st)")
    case None
    with d show ?thesis using held by (simp add: sellCoin_def sellCoin_try_def)
  next
    case p: (Some p)
    show ?thesis
    proof (cases "buyPrice p * targetMultiplier p \<le> price d")
      case True
      with d p show ?thesis using sold [of d p] by (simp add: sellCoin_def sellCoin_try_def)
    next
      case False
      with d p show ?thesis using held by (simp add: sellCoin_def sellCoin_try_def)
    qed
  qed
qed

lemma buyCoin_distinct:
  "distinct (mapKeys (trackedCoins st)) \<Longrightarrow>
     distinct (mapKeys (trackedCoins (snd (buyCoin r c a st))))"
  by (cases r c a st rule: buyCoin_cases) (simp_all add: distinct_mapSet)

lemma sellCoin_distinct:
  "distinct (mapKeys (trackedCoins st)) \<Longrightarrow>
     distinct (mapKeys (trackedCoins (snd (sellCoin r c st))))"
  by (cases r c st rule: sellCoin_cases) (simp_all add: distinct_mapDelete)

lemma sweep_distinct:
  "distinct (mapKeys (trackedCoins st)) \<Longrightarrow>
     distinct (mapKeys (trackedCoins (sweep rs cs st)))"
  by (induction cs arbitrary: st) (simp_all add: sellCoin_distinct)

lemma runDailyOperations_distinct:
  "distinct (mapKeys (trackedCoins st)) \<Longrightarrow>
     distinct (mapKeys (trackedCoins (runDailyOperations getSentiment io st)))"
  by (simp add: runDailyOperations_def Let_def sweep_distinct buyCoin_distinct
      split: list.splits option.splits)

lemma reachable_distinct: "reachable st \<Longrightarrow> distinct (mapKeys (trackedCoins st))"
proof (induction rule: reachable.induct)
  case reachable_initial
  show ?case by (simp add: initial_def mapKeys_def)
next
  case (reachable_buyCoin st r c a)
  then show ?case by (simp add: buyCoin_distinct)
next
  case (reachable_sellCoin st r c)
  then show ?case by (simp add: sellCoin_distinct)
qed

text \<open>A cycle that nothing interleaves with is a sequence of such steps.\<close>

lemma reachable_sweep: "reachable st \<Longrightarrow> reachable (sweep rs cs st)"
  by (induction cs arbitrary: st) (simp_all add: reachable_sellCoin)

lemma reachable_runDailyOperations:
  "reachable st \<Longrightarrow> reachable (runDailyOperations getSentiment io st)"
  by (simp add: runDailyOperations_def Let_def reachable_sweep reachable_buyCoin
      split: list.splits option.splits)

lemma reachable_runCycles: "reachable st \<Longrightarrow> reachable (runCycles getSentiment ios st)"
  by (induction ios arbitrary: st) (simp_all add: reachable_runDailyOperations)


lemma buyCoin_count:
  "dailyOperations (snd (buyCoin r c a st)) =
     dailyOperations st + (if fst (buyCoin r c a st) then 1 else 0)"
  by (cases r c a st rule: buyCoin_cases) simp_all

lemma sellCoin_count:
  "dailyOperations (snd (sellCoin r c st)) =
     dailyOperations st + (if fst (sellCoin r c st) then 1 else 0)"
  by (cases r c st rule: sellCoin_cases) simp_all

lemma buyCoin_unsuccessful: "\<not> fst (buyCoin r c a st) \<Longrightarrow> snd (buyCoin r c a st) = st"
  by (cases r c a st rule: buyCoin_cases) simp_all

lemma sellCoin_unsuccessful: "\<not> fst (sellCoin r c st) \<Longrightarrow> snd (sellCoin r c st) = st"
  by (cases r c st rule: sellCoin_cases) simp_all




lemma sellCoin_target:
  assumes "mapGet c (trackedCoins st) = Some p" and "getCoinData r = Some d"
  shows "sellCoin r c st =
           (if price d \<ge> buyPrice p * targetMultiplier p
            then (True, st\<lparr>trackedCoins := mapDelete c (trackedCoins st),
                           dailyOperations := dailyOperations st + 1\<rparr>)
            else (False, st))"
  using assms by (simp add: sellCoin_def sellCoin_try_def)


subsection \<open>What a purchase checks and what every position keeps\<close>

text \<open>When \<^verbatim>\<open>buyCoin\<close> buys: the state plays no part, and neither does a lower bound on the price.\<close>

lemma buyCoin_accepts_iff:
  "fst (buyCoin r c a st) \<longleftrightarrow>
     (\<exists>d. getCoinData r = Some d
        \<and> MARKET_CAP_THRESHOLD * 0.5 \<le> marketCap d \<and> marketCap d \<le> MARKET_CAP_THRESHOLD * 1.5
        \<and> price d \<le> priceCeiling)"
  by (cases "getCoinData r") (auto simp: buyCoin_def)

lemma admits_accepted:
  "getCoinData r = Some d \<Longrightarrow> admits d \<Longrightarrow> fst (buyCoin r c a st)"
  by (auto simp: buyCoin_accepts_iff admits_def)

lemma set_mapSet: "e \<in> set (mapSet k v m) \<Longrightarrow> e = (k, v) \<or> e \<in> set m"
  by (induction m) (auto split: if_splits)

lemma set_mapDelete: "e \<in> set (mapDelete k m) \<Longrightarrow> e \<in> set m"
  by (induction m) (auto split: if_splits)

lemma buyCoin_entered:
  assumes "\<forall>e \<in> set (trackedCoins st). entered (snd e)"
  shows "\<forall>e \<in> set (trackedCoins (snd (buyCoin r c a st))). entered (snd e)"
proof (cases r c a st rule: buyCoin_cases)
  case rejected
  with assms show ?thesis by simp
next
  case (bought d)
  show ?thesis
  proof
    fix e
    assume "e \<in> set (trackedCoins (snd (buyCoin r c a st)))"
    with bought(5) have "e = (c, \<lparr>buyPrice = price d, targetMultiplier = TARGET_MULTIPLIER_MIN,
        amount = a\<rparr>) \<or> e \<in> set (trackedCoins st)"
      by (simp add: set_mapSet)
    with assms bought(4) show "entered (snd e)"
      by (auto simp: entered_def)
  qed
qed

lemma sellCoin_entered:
  assumes "\<forall>e \<in> set (trackedCoins st). entered (snd e)"
  shows "\<forall>e \<in> set (trackedCoins (snd (sellCoin r c st))). entered (snd e)"
proof (cases r c st rule: sellCoin_cases)
  case held
  with assms show ?thesis by simp
next
  case (sold d p)
  with assms show ?thesis by (auto dest: set_mapDelete)
qed

lemma sweep_entered:
  "\<forall>e \<in> set (trackedCoins st). entered (snd e) \<Longrightarrow>
     \<forall>e \<in> set (trackedCoins (sweep rs cs st)). entered (snd e)"
proof (induction cs arbitrary: st)
  case Nil
  then show ?case by simp
next
  case (Cons c cs)
  from Cons.prems have "\<forall>e \<in> set (trackedCoins (snd (sellCoin (rs c) c st))). entered (snd e)"
    by (rule sellCoin_entered)
  then show ?case using Cons.IH by simp
qed

lemma runDailyOperations_entered:
  assumes "\<forall>e \<in> set (trackedCoins st). entered (snd e)"
  shows "\<forall>e \<in> set (trackedCoins (runDailyOperations getSentiment io st)). entered (snd e)"
proof (cases "runDailyOperations getSentiment io st = st")
  case True
  with assms show ?thesis by simp
next
  case False
  then obtain st1 where run: "runDailyOperations getSentiment io st =
      sweep (sellResponse io) (mapKeys (trackedCoins st1)) st1"
    and st1: "st1 = st \<or> (\<exists>r c a. st1 = snd (buyCoin r c a st))"
    by (auto simp: runDailyOperations_def Let_def split: if_splits list.splits option.splits)
  from st1 assms have "\<forall>e \<in> set (trackedCoins st1). entered (snd e)"
    using buyCoin_entered by blast
  then show ?thesis unfolding run by (rule sweep_entered)
qed

lemma reachable_entered:
  "reachable st \<Longrightarrow> \<forall>e \<in> set (trackedCoins st). entered (snd e)"
proof (induction rule: reachable.induct)
  case reachable_initial
  show ?case by (simp add: initial_def)
next
  case (reachable_buyCoin st r c a)
  from reachable_buyCoin.IH show ?case by (rule buyCoin_entered)
next
  case (reachable_sellCoin st r c)
  from reachable_sellCoin.IH show ?case by (rule sellCoin_entered)
qed

section \<open>The claims of the specification\<close>

text \<open>
  C1, as stated, fails. After a cycle that has bought \<^verbatim>\<open>FOO\<close> at \<open>1 / 256\<close>, a
  second \<^verbatim>\<open>buyCoin\<close> for \<^verbatim>\<open>FOO\<close> at \<open>1 / 512\<close> returns \<^verbatim>\<open>true\<close>, replaces
  the position and counts a second operation.
\<close>

theorem buyCoin_replaces_position:
  "mapGet ''FOO'' (trackedCoins (runDailyOperations bullish (holdCycle ''buy $FOO now'') initial)) =
     Some \<lparr>buyPrice = 1 / 256, targetMultiplier = 2, amount = 0.1\<rparr>
   \<and> buyCoin (answer (1 / 512) 5000) ''FOO'' 0.1
       (runDailyOperations bullish (holdCycle ''buy $FOO now'') initial) =
       (True, \<lparr>trackedCoins =
                 [(''FOO'', \<lparr>buyPrice = 1 / 512, targetMultiplier = 2, amount = 0.1\<rparr>)],
               dailyOperations = 2\<rparr>)"
  by (simp add: evaluation)

text \<open>
  C1, as amended. In every reachable state the position map binds each symbol at
  most once. \<^verbatim>\<open>buyCoin\<close> does not look for an existing position: whether it buys
  depends on the response alone. A purchase binds the symbol to the position
  with the new entry price, the minimum multiplier and the new amount, and
  counts one operation; when the symbol already has a position, that position is
  overwritten in its place (the keys of the map stay as they were). A rejected
  purchase changes nothing. In either case the position of every other symbol
  is as it was and the map still binds each symbol at most once.
\<close>

theorem one_position_per_symbol:
  assumes "reachable st"
  shows "distinct (mapKeys (trackedCoins st))
    \<and> distinct (mapKeys (trackedCoins (snd (buyCoin r c a st))))
    \<and> fst (buyCoin r c a st) = fst (buyCoin r c a initial)
    \<and> (mapGet c (trackedCoins st) \<noteq> None \<longrightarrow>
          mapKeys (trackedCoins (snd (buyCoin r c a st))) = mapKeys (trackedCoins st))
    \<and> (fst (buyCoin r c a st) \<longrightarrow>
          (\<exists>d. getCoinData r = Some d
             \<and> mapGet c (trackedCoins (snd (buyCoin r c a st))) =
                 Some \<lparr>buyPrice = price d, targetMultiplier = TARGET_MULTIPLIER_MIN,
                       amount = a\<rparr>)
          \<and> dailyOperations (snd (buyCoin r c a st)) = dailyOperations st + 1)
    \<and> (\<not> fst (buyCoin r c a st) \<longrightarrow> snd (buyCoin r c a st) = st)
    \<and> (k \<noteq> c \<longrightarrow>
          mapGet k (trackedCoins (snd (buyCoin r c a st))) = mapGet k (trackedCoins st))"
proof -
  have keys: "distinct (mapKeys (trackedCoins st))"
    using assms by (rule reachable_distinct)
  then have keys': "distinct (mapKeys (trackedCoins (snd (buyCoin r c a st))))"
    by (rule buyCoin_distinct)
  have same: "fst (buyCoin r c a st) = fst (buyCoin r c a initial)"
    by (cases "getCoinData r") (simp_all add: buyCoin_def)
  have place: "mapGet c (trackedCoins st) \<noteq> None \<longrightarrow>
      mapKeys (trackedCoins (snd (buyCoin r c a st))) = mapKeys (trackedCoins st)"
    by (cases r c a st rule: buyCoin_cases) (simp_all add: mapKeys_mapSet mapGet_None_iff)
  have bound: "fst (buyCoin r c a st) \<longrightarrow>
      (\<exists>d. getCoinData r = Some d
         \<and> mapGet c (trackedCoins (snd (buyCoin r c a st))) =
             Some \<lparr>buyPrice = price d, targetMultiplier = TARGET_MULTIPLIER_MIN, amount = a\<rparr>)"
    by (cases r c a st rule: buyCoin_cases) (simp_all add: mapGet_mapSet)
  have counted: "fst (buyCoin r c a st) \<longrightarrow>
      dailyOperations (snd (buyCoin r c a st)) = dailyOperations st + 1"
    by (simp add: buyCoin_count)
  have rejected: "\<not> fst (buyCoin r c a st) \<longrightarrow> snd (buyCoin r c a st) = st"
    by (simp add: buyCoin_unsuccessful)
  have others: "k \<noteq> c \<longrightarrow>
      mapGet k (trackedCoins (snd (buyCoin r c a st))) = mapGet k (trackedCoins st)"
    by (cases r c a st rule: buyCoin_cases) (simp_all add: mapGet_mapSet)
  from keys keys' same place bound counted rejected others show ?thesis by blast
qed

theorem one_position_per_symbol_witness:
  "reachable (runDailyOperations bullish (holdCycle ''buy $FOO now'') initial)
   \<and> mapGet ''FOO'' (trackedCoins (runDailyOperations bullish (holdCycle ''buy $FOO now'') initial))
       \<noteq> None
   \<and> fst (buyCoin (answer (1 / 512) 5000) ''FOO'' 0.1
            (runDailyOperations bullish (holdCycle ''buy $FOO now'') initial))
   \<and> \<not> fst (buyCoin RequestError ''FOO'' 0.1
              (runDailyOperations bullish (holdCycle ''buy $FOO now'') initial))
   \<and> ''BAR'' \<noteq> ''FOO''
   \<and> distinct (mapKeys (trackedCoins (snd (buyCoin (answer (1 / 512) 5000) ''FOO'' 0.1
         (runDailyOperations bullish (holdCycle ''buy $FOO now'') initial)))))
   \<and> dailyOperations (snd (buyCoin (answer (1 / 512) 5000) ''FOO'' 0.1
         (runDailyOperations bullish (holdCycle ''buy $FOO now'') initial))) =
       dailyOperations (runDailyOperations bullish (holdCycle ''buy $FOO now'') initial) + 1
   \<and> mapGet ''BAR'' (trackedCoins (snd (buyCoin (answer (1 / 512) 5000) ''FOO'' 0.1
         (runDailyOperations bullish (holdCycle ''buy $FOO now'') initial)))) =
       mapGet ''BAR'' (trackedCoins (runDailyOperations bullish (holdCycle ''buy $FOO now'') initial))
   \<and> snd (buyCoin RequestError ''FOO'' 0.1
            (runDailyOperations bullish (holdCycle ''buy $FOO now'') initial)) =
       runDailyOperations bullish (holdCycle ''buy $FOO now'') initial"
proof -
  have r: "reachable (runDailyOperations bullish (holdCycle ''buy $FOO now'') initial)"
    by (rule reachable_runDailyOperations [OF reachable_initial])
  have v: "runDailyOperations bullish (holdCycle ''buy $FOO now'') initial = held"
    by (simp add: evaluation)
  have t: "fst (buyCoin (answer (1 / 512) 5000) ''FOO'' 0.1 held)"
    and f: "\<not> fst (buyCoin RequestError ''FOO'' 0.1 held)"
    and g: "mapGet ''FOO'' (trackedCoins held) \<noteq> None"
    and n: "''BAR'' \<noteq> ''FOO''"
    by (simp_all add: evaluation)
  from one_position_per_symbol [OF r, of "answer (1 / 512) 5000" "''FOO''" "0.1" "''BAR''"]
    one_position_per_symbol [OF r, of RequestError "''FOO''" "0.1" "''BAR''"] r t f g n
  show ?thesis unfolding v by blast
qed

text \<open>
  C2, as stated, fails. Five cycles buy one coin each and sell nothing; the sixth
  starts with the count at \<open>5\<close>, buys a sixth coin and sells the first five,
  and ends with the count at \<open>11\<close>.
\<close>

theorem budget_exceeded:
  "reachable (runCycles bullish sixCycles initial)
   \<and> dailyOperations (runCycles bullish sixCycles initial) = 11
   \<and> \<not> dailyOperations (runCycles bullish sixCycles initial) \<le> MAX_DAILY_OPERATIONS * 2"
proof -
  have "runCycles bullish sixCycles initial =
      \<lparr>trackedCoins = [(''F'', \<lparr>buyPrice = 1 / 256, targetMultiplier = 2, amount = 0.1\<rparr>)],
       dailyOperations = 11\<rparr>"
    by (simp add: evaluation)
  then show ?thesis
    using reachable_runCycles [OF reachable_initial, of bullish sixCycles]
    by (simp add: MAX_DAILY_OPERATIONS_def)
qed

text \<open>
  C2, as amended. The limit is checked when a cycle starts: a cycle that starts
  with the count at the limit or above performs no purchase and no sale and
  changes nothing. The count goes up by exactly one with each purchase and each
  sale that succeeds, and an attempt that does not succeed changes nothing.
\<close>

theorem operation_budget:
  "(MAX_DAILY_OPERATIONS * 2 \<le> dailyOperations st \<longrightarrow>
      runDailyOperations getSentiment io st = st)
   \<and> dailyOperations (snd (buyCoin r c a st)) =
       dailyOperations st + (if fst (buyCoin r c a st) then 1 else 0)
   \<and> dailyOperations (snd (sellCoin r' c' st)) =
       dailyOperations st + (if fst (sellCoin r' c' st) then 1 else 0)
   \<and> (\<not> fst (buyCoin r c a st) \<longrightarrow> snd (buyCoin r c a st) = st)
   \<and> (\<not> fst (sellCoin r' c' st) \<longrightarrow> snd (sellCoin r' c' st) = st)"
proof -
  have "MAX_DAILY_OPERATIONS * 2 \<le> dailyOperations st \<longrightarrow>
      runDailyOperations getSentiment io st = st"
    by (simp add: runDailyOperations_def)
  then show ?thesis
    using buyCoin_count [of r c a st] sellCoin_count [of r' c' st]
      buyCoin_unsuccessful [of r c a st] sellCoin_unsuccessful [of r' c' st]
    by blast
qed

theorem operation_budget_witness:
  "MAX_DAILY_OPERATIONS * 2 \<le> dailyOperations (runCycles bullish sixCycles initial)
   \<and> \<not> fst (buyCoin RequestError ''G'' 0.1 (runCycles bullish sixCycles initial))
   \<and> \<not> fst (sellCoin (answer (1 / 256) 5000) ''F'' (runCycles bullish sixCycles initial))
   \<and> runDailyOperations bullish (holdCycle ''$G'') (runCycles bullish sixCycles initial) =
       runCycles bullish sixCycles initial
   \<and> snd (buyCoin RequestError ''G'' 0.1 (runCycles bullish sixCycles initial)) =
       runCycles bullish sixCycles initial
   \<and> snd (sellCoin (answer (1 / 256) 5000) ''F'' (runCycles bullish sixCycles initial)) =
       runCycles bullish sixCycles initial"
proof -
  have v: "runCycles bullish sixCycles initial =
      \<lparr>trackedCoins = [(''F'', \<lparr>buyPrice = 1 / 256, targetMultiplier = 2, amount = 0.1\<rparr>)],
       dailyOperations = 11\<rparr>"
    by (simp add: evaluation)
  have l: "MAX_DAILY_OPERATIONS * 2 \<le> dailyOperations (runCycles bullish sixCycles initial)"
    unfolding v by (simp add: MAX_DAILY_OPERATIONS_def)
  have b: "\<not> fst (buyCoin RequestError ''G'' 0.1 (runCycles bullish sixCycles initial))"
    by (simp add: buyCoin_def)
  have s: "\<not> fst (sellCoin (answer (1 / 256) 5000) ''F'' (runCycles bullish sixCycles initial))"
    unfolding v by (simp add: evaluation)
  from operation_budget [of "runCycles bullish sixCycles initial" bullish "holdCycle ''$G''"
      RequestError "''G''" "0.1" "answer (1 / 256) 5000" "''F''"] l b s
  show ?thesis by blast
qed




text \<open>
  C4. \<^verbatim>\<open>buyCoin\<close> accepts a snapshot the admission predicate rejects: a response
  without a price gives the price \<open>0\<close>, which passes the only price check of
  \<^verbatim>\<open>buyCoin\<close> (\<^verbatim>\<open>price > 0.01\<close>), and the purchase is made and counted.
\<close>

theorem buyCoin_admits_zero_price:
  "getCoinData unpriced = Some \<lparr>price = 0, marketCap = 5000\<rparr>
   \<and> \<not> admits \<lparr>price = 0, marketCap = 5000\<rparr>
   \<and> buyCoin unpriced ''FOO'' 0.1 initial =
       (True, \<lparr>trackedCoins =
                 [(''FOO'', \<lparr>buyPrice = 0, targetMultiplier = 2, amount = 0.1\<rparr>)],
               dailyOperations = 1\<rparr>)"
  by (simp add: evaluation)

text \<open>
  C5. For a tracked position and an available snapshot, \<^verbatim>\<open>sellCoin\<close> sells if and
  only if the current price is at least the entry price times the target
  multiplier, the boundary included. A sale removes the position and adds one to
  the count; otherwise \<^verbatim>\<open>sellCoin\<close> returns \<^verbatim>\<open>false\<close> and changes nothing.
\<close>

theorem sellCoin_iff_target:
  assumes "mapGet c (trackedCoins st) = Some p" and "getCoinData r = Some d"
  shows "(fst (sellCoin r c st) \<longleftrightarrow> price d \<ge> buyPrice p * targetMultiplier p)
    \<and> (price d = buyPrice p * targetMultiplier p \<longrightarrow> fst (sellCoin r c st))
    \<and> (fst (sellCoin r c st) \<longrightarrow>
          snd (sellCoin r c st) =
            st\<lparr>trackedCoins := mapDelete c (trackedCoins st),
               dailyOperations := dailyOperations st + 1\<rparr>
          \<and> mapGet c (trackedCoins (snd (sellCoin r c st))) = None)
    \<and> (\<not> fst (sellCoin r c st) \<longrightarrow> snd (sellCoin r c st) = st)"
  using assms by (simp add: sellCoin_target mapGet_mapDelete)

theorem sellCoin_iff_target_witness:
  "mapGet ''FOO'' (trackedCoins held) =
     Some \<lparr>buyPrice = 1 / 256, targetMultiplier = 2, amount = 0.1\<rparr>
   \<and> getCoinData (answer (1 / 128) 5000) = Some \<lparr>price = 1 / 128, marketCap = 5000\<rparr>
   \<and> price \<lparr>price = 1 / 128, marketCap = 5000\<rparr> =
       buyPrice \<lparr>buyPrice = 1 / 256, targetMultiplier = 2, amount = 0.1\<rparr>
         * targetMultiplier \<lparr>buyPrice = 1 / 256, targetMultiplier = 2, amount = 0.1\<rparr>
   \<and> fst (sellCoin (answer (1 / 128) 5000) ''FOO'' held)
   \<and> snd (sellCoin (answer (1 / 128) 5000) ''FOO'' held) =
       \<lparr>trackedCoins = [], dailyOperations = 2\<rparr>"
proof -
  have a: "mapGet ''FOO'' (trackedCoins held) =
      Some \<lparr>buyPrice = 1 / 256, targetMultiplier = 2, amount = 0.1\<rparr>"
    by (simp add: held_def)
  have b: "getCoinData (answer (1 / 128) 5000) = Some \<lparr>price = 1 / 128, marketCap = 5000\<rparr>"
    by (simp add: answer_def orZero_def)
  from sellCoin_iff_target [OF a b] a b show ?thesis
    by (simp add: held_def)
qed

text \<open>
  C6. A position can be created with the entry price \<open>0\<close>: the cycle admits the
  coin on its own snapshot, \<^verbatim>\<open>buyCoin\<close> fetches a second one and does not check
  that its price is positive.
\<close>

theorem position_with_zero_entry_price:
  "admits \<lparr>price = 1 / 256, marketCap = 5000\<rparr>
   \<and> getCoinData (topResponse zeroCycle) = Some \<lparr>price = 1 / 256, marketCap = 5000\<rparr>
   \<and> getCoinData (buyResponse zeroCycle) = Some \<lparr>price = 0, marketCap = 5000\<rparr>
   \<and> runDailyOperations bullish zeroCycle initial =
       \<lparr>trackedCoins = [(''FOO'', \<lparr>buyPrice = 0, targetMultiplier = 2, amount = 0.1\<rparr>)],
        dailyOperations = 1\<rparr>"
  by (simp add: evaluation)

text \<open>
  C7. When the market data for a coin is unavailable, \<^verbatim>\<open>sellCoin\<close> returns
  \<^verbatim>\<open>false\<close> and leaves the position map and the count as they are.
\<close>

theorem sellCoin_no_data:
  assumes "getCoinData r = None"
  shows "sellCoin r c st = (False, st)"
  using assms by (simp add: sellCoin_def sellCoin_try_def)

theorem sellCoin_no_data_witness:
  "getCoinData RequestError = None
   \<and> getCoinData (Response (Some [])) = None
   \<and> sellCoin RequestError ''FOO'' held = (False, held)
   \<and> sellCoin (Response (Some [])) ''FOO'' held = (False, held)"
  using sellCoin_no_data [of RequestError "''FOO''" held]
    sellCoin_no_data [of "Response (Some [])" "''FOO''" held]
  by simp

text \<open>
  C8. A post whose sentiment is negative, or whose text contains \<^verbatim>\<open>scam\<close> or
  \<^verbatim>\<open>rug\<close> in any mix of upper and lower case, gives no candidate, whatever its
  symbol and however positive its sentiment: no candidate of the output comes
  from it, and the output is the one the feed without that post gives.
\<close>

theorem analyzeTweets_excludes:
  assumes "getSentiment t < 0
             \<or> (\<exists>pre w suf. t = pre @ w @ suf
                   \<and> (toLowerCase w = ''scam'' \<or> toLowerCase w = ''rug''))"
  shows "(\<forall>c \<in> set (analyzeTweets getSentiment fd). tweet c \<noteq> t)
    \<and> analyzeTweets getSentiment (Some (before @ t # after)) =
        analyzeTweets getSentiment (Some (before @ after))"
proof -
  from assms have excluded: "suspicious getSentiment t"
    using suspicious_denied by (auto simp: suspicious_def)
  have "\<forall>c \<in> set (analyzeTweets getSentiment fd). tweet c \<noteq> t"
  proof (cases fd)
    case None
    then show ?thesis by (simp add: analyzeTweets_def)
  next
    case (Some tweets)
    with excluded show ?thesis
      using potentialCoins_accepted [of _ getSentiment tweets]
      by (auto simp: analyzeTweets_def set_sortBy)
  qed
  moreover from excluded
  have "potentialCoins getSentiment (before @ t # after) =
      potentialCoins getSentiment (before @ after)"
    by (simp add: potentialCoins_append)
  ultimately show ?thesis by (simp add: analyzeTweets_def)
qed

theorem analyzeTweets_excludes_witness:
  "scored ''bad $EEE'' < 0
   \<and> ''$BBB is a SCAM'' = ''$BBB is a '' @ ''SCAM'' @ []
   \<and> toLowerCase ''SCAM'' = ''scam''
   \<and> 0 < scored ''$BBB is a SCAM''
   \<and> ''bad $EEE'' \<notin> tweet ` set (analyzeTweets scored (Some timeline))
   \<and> ''$BBB is a SCAM'' \<notin> tweet ` set (analyzeTweets scored (Some timeline))
   \<and> analyzeTweets scored (Some ([''$AAA up''] @ ''$BBB is a SCAM'' # [''$CCC moon''])) =
       analyzeTweets scored (Some ([''$AAA up''] @ [''$CCC moon'']))"
proof -
  have a: "scored ''bad $EEE'' < 0"
    by (simp add: scored_def)
  have b: "''$BBB is a SCAM'' = ''$BBB is a '' @ ''SCAM'' @ []"
    by simp
  have c: "toLowerCase ''SCAM'' = ''scam''"
    by (simp add: toLowerCase_def toLowerChar_def)
  have d: "0 < scored ''$BBB is a SCAM''"
    by (simp add: scored_def)
  from b c have e: "scored ''$BBB is a SCAM'' < 0
      \<or> (\<exists>pre w suf. ''$BBB is a SCAM'' = pre @ w @ suf
            \<and> (toLowerCase w = ''scam'' \<or> toLowerCase w = ''rug''))"
    by blast
  from a have f: "scored ''bad $EEE'' < 0
      \<or> (\<exists>pre w suf. ''bad $EEE'' = pre @ w @ suf
            \<and> (toLowerCase w = ''scam'' \<or> toLowerCase w = ''rug''))"
    by blast
  note scam = analyzeTweets_excludes [where getSentiment = scored and t = "''$BBB is a SCAM''"
        and fd = "Some timeline" and before = "[''$AAA up'']" and after = "[''$CCC moon'']", OF e]
  note negative = analyzeTweets_excludes [where getSentiment = scored and t = "''bad $EEE''"
        and fd = "Some timeline" and before = "[]" and after = "[]", OF f]
  from negative have g: "''bad $EEE'' \<notin> tweet ` set (analyzeTweets scored (Some timeline))"
    by (auto simp only: image_iff)
  from scam have h: "''$BBB is a SCAM'' \<notin> tweet ` set (analyzeTweets scored (Some timeline))"
    by (auto simp only: image_iff)
  from scam have i: "analyzeTweets scored (Some ([''$AAA up''] @ ''$BBB is a SCAM'' # [''$CCC moon''])) =
      analyzeTweets scored (Some ([''$AAA up''] @ [''$CCC moon'']))"
    by (rule conjunct2)
  from a b c d g h i show ?thesis
    by (intro conjI)
qed

text \<open>
  C9. The output of \<^verbatim>\<open>analyzeTweets\<close> is in descending order of sentiment. The
  candidates of one score stand in the order of the posts they come from: their
  texts are the accepted posts of that score, in feed order. An empty feed and a
  feed whose posts are all rejected or without a symbol give the empty output,
  as does a feed that fails.
\<close>

theorem analyzeTweets_sorted_stable:
  "sorted_wrt (\<lambda>a b. sentiment b \<le> sentiment a) (analyzeTweets getSentiment fd)
   \<and> map tweet (filter (\<lambda>c. sentiment c = s) (analyzeTweets getSentiment (Some tweets))) =
       filter (\<lambda>t. \<not> suspicious getSentiment t \<and> coinMatch t \<noteq> None \<and> getSentiment t = s)
         tweets
   \<and> analyzeTweets getSentiment (Some []) = []
   \<and> ((\<forall>t \<in> set rejected. suspicious getSentiment t \<or> coinMatch t = None) \<longrightarrow>
         analyzeTweets getSentiment (Some rejected) = [])
   \<and> analyzeTweets getSentiment None = []"
proof -
  have "sorted_wrt (\<lambda>a b. sentiment b \<le> sentiment a) (analyzeTweets getSentiment fd)"
    by (cases fd) (simp_all add: analyzeTweets_def sorted_sortBy)
  moreover
  have "map tweet (filter (\<lambda>c. sentiment c = s) (analyzeTweets getSentiment (Some tweets))) =
      filter (\<lambda>t. \<not> suspicious getSentiment t \<and> coinMatch t \<noteq> None \<and> getSentiment t = s)
        tweets"
    by (simp add: analyzeTweets_def filter_sortBy map_tweet_filter_score)
  moreover have "analyzeTweets getSentiment (Some []) = []"
    and "analyzeTweets getSentiment None = []"
    by (simp_all add: analyzeTweets_def)
  moreover have "(\<forall>t \<in> set rejected. suspicious getSentiment t \<or> coinMatch t = None) \<longrightarrow>
      analyzeTweets getSentiment (Some rejected) = []"
    by (simp add: analyzeTweets_def potentialCoins_rejected)
  ultimately show ?thesis by blast
qed

theorem analyzeTweets_sorted_stable_witness:
  "suspicious scored ''$BBB is a SCAM'' \<and> suspicious scored ''bad $EEE''
   \<and> coinMatch ''no coin'' = None
   \<and> analyzeTweets scored (Some [''$BBB is a SCAM'', ''bad $EEE'', ''no coin'']) = []
   \<and> sorted_wrt (\<lambda>a b. sentiment b \<le> sentiment a) (analyzeTweets scored (Some timeline))
   \<and> map tweet (filter (\<lambda>c. sentiment c = 1) (analyzeTweets scored (Some timeline))) =
       [''$AAA up'', ''$DDD ok'']"
proof -
  have a: "suspicious scored ''$BBB is a SCAM''" and b: "suspicious scored ''bad $EEE''"
    and c: "coinMatch ''no coin'' = None"
    by (simp_all add: ranking)
  then have d: "\<forall>t \<in> set [''$BBB is a SCAM'', ''bad $EEE'', ''no coin''].
      suspicious scored t \<or> coinMatch t = None"
    by simp
  have e: "filter (\<lambda>t. \<not> suspicious scored t \<and> coinMatch t \<noteq> None \<and> scored t = 1) timeline =
      [''$AAA up'', ''$DDD ok'']"
    by (simp add: ranking)
  from analyzeTweets_sorted_stable [of scored "Some timeline" 1 timeline
      "[''$BBB is a SCAM'', ''bad $EEE'', ''no coin'']"] a b c d e
  show ?thesis by simp
qed

text \<open>
  C10. \<^verbatim>\<open>sellCoin\<close> on a coin without a position returns \<^verbatim>\<open>false\<close> and changes
  neither the position map nor the count, whatever the market data; when data is
  available its block throws the \<^verbatim>\<open>TypeError\<close>, which the \<^verbatim>\<open>catch\<close> absorbs.
\<close>

theorem sellCoin_unknown_coin:
  assumes "mapGet c (trackedCoins st) = None"
  shows "sellCoin r c st = (False, st)
    \<and> (getCoinData r \<noteq> None \<longrightarrow> sellCoin_try r c st = Inl TypeError)"
  using assms by (cases "getCoinData r") (simp_all add: sellCoin_def sellCoin_try_def)

theorem sellCoin_unknown_coin_witness:
  "mapGet ''BAR'' (trackedCoins held) = None
   \<and> getCoinData (answer (1 / 64) 5000) \<noteq> None
   \<and> sellCoin (answer (1 / 64) 5000) ''BAR'' held = (False, held)
   \<and> sellCoin_try (answer (1 / 64) 5000) ''BAR'' held = Inl TypeError"
proof -
  have a: "mapGet ''BAR'' (trackedCoins held) = None"
    by (simp add: held_def)
  have b: "getCoinData (answer (1 / 64) 5000) \<noteq> None"
    by (simp add: answer_def)
  from sellCoin_unknown_coin [OF a, of "answer (1 / 64) 5000"] a b show ?thesis
    by simp
qed

end
